theory Spec2Isabelle
  imports Main "HOL-Library.Multiset"
begin

section \<open>Values shared by the inventory monitor\<close>

text \<open>
  A Python \<open>str\<close> is a sequence of Unicode code points; it is modelled as a list of
  natural numbers, one per code point. \<open>ascii\<close> writes an ASCII literal.
\<close>

type_synonym pystr = "nat list"

definition ascii :: "string \<Rightarrow> pystr" where
  "ascii s = map of_char s"

text \<open>
  A \<open>datetime\<close> is the number of microseconds since 0001-01-01T00:00:00, the first
  instant Python's \<open>datetime\<close> can hold. Where the source stores
  \<open>datetime.now().isoformat()\<close>, the model stores the reading itself. The clock is the
  sequence of readings that successive calls of \<open>datetime.now()\<close> return; a function
  that reads it takes the number of readings made so far and returns the new count.
\<close>

type_synonym datetime = int
type_synonym clock = "nat \<Rightarrow> datetime"

datatype py_error =
    KeyError pystr
  | TypeError
  | ValueError
  | OverflowError
  | OtherError

text \<open>
  An inventory item is the dictionary built by the scraper. \<open>product\<close> and
  \<open>quantity\<close> are read with \<open>item['product']\<close> and \<open>item['quantity']\<close> everywhere;
  \<open>expiry_date\<close> and \<open>scraped_at\<close> are also read with \<open>.get\<close> or under
  \<open>except KeyError\<close>, so they may be absent.
\<close>

record item =
  product :: pystr
  quantity :: int
  expiry_date :: "pystr option"
  scraped_at :: "pystr option"

section \<open>Change events (\<open>inventory_monitor.py\<close>)\<close>

datatype change_type = Shipment | Increase

record change_info =
  ch_product :: pystr
  previous_quantity :: int
  current_quantity :: int
  quantity_diff :: int
  previous_expiry :: pystr
  current_expiry :: pystr
  expiry_changed :: bool
  ch_timestamp :: datetime
  ch_type :: change_type
  shipped_quantity :: "int option"

record new_product =
  np_product :: pystr
  np_quantity :: int
  np_expiry_date :: pystr
  np_timestamp :: datetime

record removed_product =
  rp_product :: pystr
  rp_previous_quantity :: int
  rp_timestamp :: datetime

record change_set =
  changes :: "change_info list"
  new_products :: "new_product list"
  removed_products :: "removed_product list"
  cs_timestamp :: datetime

text \<open>
  The history is the dictionary loaded from the JSON file: a key holds a listing, or the
  timestamp written beside it under \<open><key>_timestamp\<close>.
\<close>

datatype hval = Listing "item list" | Stamp datetime

type_synonym history = "pystr \<rightharpoonup> hval"

section \<open>Python dictionaries with insertion order\<close>

text \<open>
  \<open>d[k] = v\<close> on an insertion-ordered dictionary: a key already present keeps its
  position and takes the new value, a new key goes to the end.
\<close>

fun dict_set :: "('k \<times> 'v) list \<Rightarrow> 'k \<Rightarrow> 'v \<Rightarrow> ('k \<times> 'v) list" where
  "dict_set [] k v = [(k, v)]"
| "dict_set ((k', v') # d) k v =
     (if k' = k then (k, v) # d else (k', v') # dict_set d k v)"

text \<open>\<open>{item['product']: item for item in items}\<close>\<close>

definition index_by_product :: "item list \<Rightarrow> (pystr \<times> item) list" where
  "index_by_product items = foldl (\<lambda>d it. dict_set d (product it) it) [] items"

section \<open>The inventory differ: \<open>InventoryMonitor.compare_inventory\<close>\<close>

text \<open>\<open>prev_item.get('expiry_date', '')\<close>\<close>

definition get_expiry :: "item \<Rightarrow> pystr" where
  "get_expiry it = (case expiry_date it of None \<Rightarrow> [] | Some e \<Rightarrow> e)"

text \<open>The \<open>change_info\<close> dictionary of lines 128 to 144, for a current expiry that is present.\<close>

definition make_change :: "pystr \<Rightarrow> item \<Rightarrow> pystr \<Rightarrow> item \<Rightarrow> datetime \<Rightarrow> change_info" where
  "make_change name cur ce pv ts =
     (let qd = quantity cur - quantity pv in
      \<lparr> ch_product = name,
        previous_quantity = quantity pv,
        current_quantity = quantity cur,
        quantity_diff = qd,
        previous_expiry = get_expiry pv,
        current_expiry = ce,
        expiry_changed = (ce \<noteq> get_expiry pv),
        ch_timestamp = ts,
        ch_type = (if qd < 0 then Shipment else Increase),
        shipped_quantity = (if qd < 0 then Some (abs qd) else None) \<rparr>)"

text \<open>
  The first loop (lines 117 to 154) over \<open>current_dict.items()\<close>. A current item without
  \<open>expiry_date\<close> raises \<open>KeyError\<close> at line 125 or line 152.
\<close>

fun scan_current ::
  "clock \<Rightarrow> nat \<Rightarrow> (pystr \<times> item) list \<Rightarrow> (pystr \<times> item) list
     \<Rightarrow> py_error + (change_info list \<times> new_product list \<times> nat)" where
  "scan_current clk t [] pd = Inr ([], [], t)"
| "scan_current clk t ((name, cur) # rest) pd =
     (case map_of pd name of
        Some pv \<Rightarrow>
          (case expiry_date cur of
             None \<Rightarrow> Inl (KeyError (ascii ''expiry_date''))
           | Some ce \<Rightarrow>
               if quantity cur - quantity pv \<noteq> 0 \<or> ce \<noteq> get_expiry pv then
                 (case scan_current clk (Suc t) rest pd of
                    Inl e \<Rightarrow> Inl e
                  | Inr (cs, ns, t') \<Rightarrow> Inr (make_change name cur ce pv (clk t) # cs, ns, t'))
               else scan_current clk t rest pd)
      | None \<Rightarrow>
          (case expiry_date cur of
             None \<Rightarrow> Inl (KeyError (ascii ''expiry_date''))
           | Some ce \<Rightarrow>
               (case scan_current clk (Suc t) rest pd of
                  Inl e \<Rightarrow> Inl e
                | Inr (cs, ns, t') \<Rightarrow>
                    Inr (cs,
                         \<lparr> np_product = name, np_quantity = quantity cur,
                           np_expiry_date = ce, np_timestamp = clk t \<rparr> # ns,
                         t'))))"

text \<open>The second loop (lines 157 to 163) over \<open>previous_dict.items()\<close>.\<close>

fun scan_previous ::
  "clock \<Rightarrow> nat \<Rightarrow> (pystr \<times> item) list \<Rightarrow> (pystr \<times> item) list
     \<Rightarrow> removed_product list \<times> nat" where
  "scan_previous clk t [] cd = ([], t)"
| "scan_previous clk t ((name, pv) # rest) cd =
     (case map_of cd name of
        None \<Rightarrow>
          (case scan_previous clk (Suc t) rest cd of
             (rs, t') \<Rightarrow>
               (\<lparr> rp_product = name, rp_previous_quantity = quantity pv,
                  rp_timestamp = clk t \<rparr> # rs, t'))
      | Some c \<Rightarrow> scan_previous clk t rest cd)"

text \<open>Lines 109 to 170: the comparison of two listings.\<close>

definition diff_listings ::
  "clock \<Rightarrow> nat \<Rightarrow> item list \<Rightarrow> item list \<Rightarrow> py_error + (change_set \<times> nat)" where
  "diff_listings clk t current previous =
     (let current_dict = index_by_product current;
          previous_dict = index_by_product previous
      in case scan_current clk t current_dict previous_dict of
           Inl e \<Rightarrow> Inl e
         | Inr (cs, ns, t1) \<Rightarrow>
             (case scan_previous clk t1 previous_dict current_dict of
                (rs, t2) \<Rightarrow>
                  Inr (\<lparr> changes = cs, new_products = ns, removed_products = rs,
                         cs_timestamp = clk t2 \<rparr>, Suc t2)))"

text \<open>\<open>self.history.get(previous_key, [])\<close>\<close>

definition history_get :: "history \<Rightarrow> pystr \<Rightarrow> hval" where
  "history_get h k = (case h k of None \<Rightarrow> Listing [] | Some v \<Rightarrow> v)"

text \<open>
  A key that holds a timestamp gives a non-empty string; iterating it reaches
  \<open>item['product']\<close> on a one-character string, which raises \<open>TypeError\<close>.
\<close>

definition compare_inventory ::
  "clock \<Rightarrow> nat \<Rightarrow> history \<Rightarrow> item list \<Rightarrow> pystr \<Rightarrow> py_error + (change_set \<times> nat)" where
  "compare_inventory clk t h current previous_key =
     (case history_get h previous_key of
        Listing previous \<Rightarrow> diff_listings clk t current previous
      | Stamp s \<Rightarrow> Inl TypeError)"

text \<open>
  A change set with every clock reading in it replaced by \<open>0\<close>: what is left is the part
  of the result that the listings alone determine.
\<close>

definition erase_timestamps :: "change_set \<Rightarrow> change_set" where
  "erase_timestamps cs =
     \<lparr> changes = map (\<lambda>c. c\<lparr>ch_timestamp := 0\<rparr>) (changes cs),
       new_products = map (\<lambda>n. n\<lparr>np_timestamp := 0\<rparr>) (new_products cs),
       removed_products = map (\<lambda>r. r\<lparr>rp_timestamp := 0\<rparr>) (removed_products cs),
       cs_timestamp = 0 \<rparr>"

text \<open>
  The event that the classification rule of the differ assigns to one entry of a
  dictionary, with the clock reading erased: used to state what the loops compute.
\<close>

definition change_for :: "(pystr \<times> item) list \<Rightarrow> pystr \<times> item \<Rightarrow> change_info option" where
  "change_for pd e =
     (case map_of pd (fst e) of
        Some pv \<Rightarrow>
          if quantity (snd e) - quantity pv \<noteq> 0 \<or> get_expiry (snd e) \<noteq> get_expiry pv
          then Some (make_change (fst e) (snd e) (get_expiry (snd e)) pv 0) else None
      | None \<Rightarrow> None)"

definition new_for :: "(pystr \<times> item) list \<Rightarrow> pystr \<times> item \<Rightarrow> new_product option" where
  "new_for pd e =
     (case map_of pd (fst e) of
        Some pv \<Rightarrow> None
      | None \<Rightarrow> Some \<lparr> np_product = fst e, np_quantity = quantity (snd e),
                       np_expiry_date = get_expiry (snd e), np_timestamp = 0 \<rparr>)"

definition removed_for :: "(pystr \<times> item) list \<Rightarrow> pystr \<times> item \<Rightarrow> removed_product option" where
  "removed_for cd e =
     (case map_of cd (fst e) of
        Some c \<Rightarrow> None
      | None \<Rightarrow> Some \<lparr> rp_product = fst e, rp_previous_quantity = quantity (snd e),
                       rp_timestamp = 0 \<rparr>)"

section \<open>Dates of Python's \<open>datetime\<close> module\<close>

text \<open>
  The proleptic Gregorian calendar as \<open>datetime.py\<close> computes it: \<open>_is_leap\<close>,
  \<open>_days_in_month\<close>, \<open>_days_before_year\<close>, \<open>_days_before_month\<close> and \<open>_ymd2ord\<close>,
  where day 1 is 0001-01-01.
\<close>

definition is_leap :: "int \<Rightarrow> bool" where
  "is_leap y \<longleftrightarrow> y mod 4 = 0 \<and> (y mod 100 \<noteq> 0 \<or> y mod 400 = 0)"

definition days_in_month :: "int \<Rightarrow> int \<Rightarrow> int" where
  "days_in_month y m =
     (if m = 2 then (if is_leap y then 29 else 28)
      else if m = 4 \<or> m = 6 \<or> m = 9 \<or> m = 11 then 30 else 31)"

definition days_before_year :: "int \<Rightarrow> int" where
  "days_before_year y = (y - 1) * 365 + (y - 1) div 4 - (y - 1) div 100 + (y - 1) div 400"

definition days_before_month :: "int \<Rightarrow> int \<Rightarrow> int" where
  "days_before_month y m = sum_list (map (days_in_month y) [1..m - 1])"

definition ymd2ord :: "int \<Rightarrow> int \<Rightarrow> int \<Rightarrow> int" where
  "ymd2ord y m d = days_before_year y + days_before_month y m + d"

text \<open>
  The check of the \<open>datetime\<close> and \<open>date\<close> constructors, which raise \<open>ValueError\<close> outside
  of it: \<open>MINYEAR = 1\<close>, \<open>MAXYEAR = 9999\<close>.
\<close>

definition valid_date :: "int \<Rightarrow> int \<Rightarrow> int \<Rightarrow> bool" where
  "valid_date y m d \<longleftrightarrow>
     1 \<le> y \<and> y \<le> 9999 \<and> 1 \<le> m \<and> m \<le> 12 \<and> 1 \<le> d \<and> d \<le> days_in_month y m"

definition us_per_day :: int where
  "us_per_day = 86400000000"

text \<open>Midnight of a valid date, and the last instant a \<open>datetime\<close> holds (9999-12-31T23:59:59.999999).\<close>

definition midnight :: "int \<Rightarrow> int \<Rightarrow> int \<Rightarrow> datetime" where
  "midnight y m d = (ymd2ord y m d - 1) * us_per_day"

definition datetime_max :: datetime where
  "datetime_max = 3652059 * us_per_day - 1"

text \<open>
  \<open>dt + timedelta(days=n)\<close>: the \<open>timedelta\<close> constructor raises \<open>OverflowError\<close> beyond
  999999999 days, the addition when the result is not a \<open>datetime\<close>.
\<close>

definition datetime_add_days :: "datetime \<Rightarrow> int \<Rightarrow> py_error + datetime" where
  "datetime_add_days dt n =
     (if \<bar>n\<bar> > 999999999 then Inl OverflowError
      else if dt + n * us_per_day < 0 \<or> datetime_max < dt + n * us_per_day then Inl OverflowError
      else Inr (dt + n * us_per_day))"

text \<open>
  \<open>datetime.strptime(s, '%Y-%m-%d')\<close> is the library's; the scanner takes it as a
  parameter that gives the parsed midnight, or \<open>None\<close> where the library raises
  \<open>ValueError\<close>. \<open>strptime_ymd\<close> is that function on ASCII text: four digits, one or two
  digits, one or two digits, separated by hyphens, and a date the constructor accepts.
\<close>

definition ascii_digit :: "nat \<Rightarrow> int option" where
  "ascii_digit c = (if 48 \<le> c \<and> c \<le> 57 then Some (int c - 48) else None)"

fun ascii_number :: "int \<Rightarrow> pystr \<Rightarrow> int option" where
  "ascii_number acc [] = Some acc"
| "ascii_number acc (c # cs) =
     (case ascii_digit c of None \<Rightarrow> None | Some v \<Rightarrow> ascii_number (acc * 10 + v) cs)"

fun split_on :: "nat \<Rightarrow> pystr \<Rightarrow> pystr list" where
  "split_on sep [] = [[]]"
| "split_on sep (c # cs) =
     (if c = sep then [] # split_on sep cs
      else (case split_on sep cs of [] \<Rightarrow> [[c]] | w # ws \<Rightarrow> (c # w) # ws))"

definition strptime_ymd :: "pystr \<Rightarrow> datetime option" where
  "strptime_ymd s =
     (case split_on 45 s of
        [ys, ms, ds] \<Rightarrow>
          if length ys = 4 \<and> (length ms = 1 \<or> length ms = 2) \<and> (length ds = 1 \<or> length ds = 2)
          then (case (ascii_number 0 ys, ascii_number 0 ms, ascii_number 0 ds) of
                  (Some y, Some m, Some d) \<Rightarrow>
                    if valid_date y m d then Some (midnight y m d) else None
                | _ \<Rightarrow> None)
          else None
      | _ \<Rightarrow> None)"

section \<open>The expiry scanner: \<open>InventoryMonitor.get_expiring_soon_products\<close>\<close>

text \<open>\<open>item_copy\<close>: the item with its \<open>days_until_expiry\<close>.\<close>

record expiring_item =
  ei_item :: item
  days_until_expiry :: int

text \<open>
  The loop of lines 289 to 299. \<open>KeyError\<close> (no \<open>expiry_date\<close>) and \<open>ValueError\<close> (the
  date does not parse) skip the item. A kept item reads the clock once, for
  \<open>(expiry_date - datetime.now()).days\<close>, which is the floor of the difference in days.
\<close>

fun scan_expiry ::
  "(pystr \<Rightarrow> datetime option) \<Rightarrow> clock \<Rightarrow> nat \<Rightarrow> datetime \<Rightarrow> item list
     \<Rightarrow> expiring_item list \<times> nat" where
  "scan_expiry strptime clk t cutoff_date [] = ([], t)"
| "scan_expiry strptime clk t cutoff_date (it # rest) =
     (case expiry_date it of
        None \<Rightarrow> scan_expiry strptime clk t cutoff_date rest
      | Some e \<Rightarrow>
          (case strptime e of
             None \<Rightarrow> scan_expiry strptime clk t cutoff_date rest
           | Some d \<Rightarrow>
               if d \<le> cutoff_date then
                 (case scan_expiry strptime clk (Suc t) cutoff_date rest of
                    (xs, t') \<Rightarrow>
                      (\<lparr> ei_item = it, days_until_expiry = (d - clk t) div us_per_day \<rparr> # xs, t'))
               else scan_expiry strptime clk t cutoff_date rest))"

text \<open>
  Line 287 reads the clock for the cutoff; line 302 sorts by the key with Python's stable
  sort.
\<close>

definition get_expiring_soon_products ::
  "(pystr \<Rightarrow> datetime option) \<Rightarrow> clock \<Rightarrow> nat \<Rightarrow> item list \<Rightarrow> int
     \<Rightarrow> py_error + (expiring_item list \<times> nat)" where
  "get_expiring_soon_products strptime clk t inventory days =
     (case datetime_add_days (clk t) days of
        Inl e \<Rightarrow> Inl e
      | Inr cutoff_date \<Rightarrow>
          (case scan_expiry strptime clk (Suc t) cutoff_date inventory of
             (xs, t') \<Rightarrow> Inr (sort_key days_until_expiry xs, t')))"

text \<open>An item is kept when its date parses and its midnight is not after the cutoff.\<close>

definition within_cutoff :: "(pystr \<Rightarrow> datetime option) \<Rightarrow> datetime \<Rightarrow> item \<Rightarrow> bool" where
  "within_cutoff strptime cutoff_date it =
     (case expiry_date it of
        None \<Rightarrow> False
      | Some e \<Rightarrow> (case strptime e of None \<Rightarrow> False | Some d \<Rightarrow> d \<le> cutoff_date))"

text \<open>The value \<open>(expiry_date - now).days\<close> of an item whose date parses, for a reading \<open>now\<close>.\<close>

definition days_until :: "(pystr \<Rightarrow> datetime option) \<Rightarrow> datetime \<Rightarrow> item \<Rightarrow> int option" where
  "days_until strptime now it =
     (case expiry_date it of
        None \<Rightarrow> None
      | Some e \<Rightarrow> (case strptime e of None \<Rightarrow> None | Some d \<Rightarrow> Some ((d - now) div us_per_day)))"

section \<open>The world around one monitoring cycle\<close>

text \<open>
  Log records keep their level and an English rendering of the message. The backing file
  of the history is missing, present but not readable, or has a content. A write of a
  text to it either completes, fails at \<open>open\<close>, or stops after some characters of the
  text have been written (an exception inside \<open>json.dump\<close>, or the process dying).
\<close>

datatype level = LDebug | LInfo | LWarning | LError

datatype backing_file = Missing | Unreadable | Content pystr

datatype write_outcome = WriteOk | OpenFails | Interrupted nat

text \<open>
  What the program does to the outside: calls of the spreadsheet client, mails handed to
  the SMTP server, reports printed on the console. A row of a sheet is kept as the values
  it is rendered from.
\<close>

datatype stamp = Scraped pystr | Now datetime

datatype row = InventoryRow pystr int pystr stamp | ChangeRow change_info

datatype effect =
    SheetHeader pystr
  | SheetAppend pystr "row list"
  | ShipmentEmail "change_info list"
  | ShipmentConsole "change_info list"
  | ExpiryEmail "expiring_item list"
  | ExpiryConsole "expiring_item list"

record world =
  history :: history
  storage :: backing_file
  effects :: "effect list"
  logs :: "(level \<times> string) list"
  ticks :: nat

text \<open>
  The configuration: whether a sheets client was given to the monitor, and whether the
  notifier has a notification address and SMTP credentials.
\<close>

record config =
  sheets_client :: bool
  notification_email :: bool
  smtp_credentials :: bool

text \<open>
  What the outside answers during one cycle: the result of the fetch, the outcome of the
  write of the history file, for each sheet whether \<open>get_header_row\<close> finds a header
  (\<open>HttpError\<close> is handled inside it and gives no header; any other exception leaves it),
  whether the header update and the append go through, and whether SMTP delivers.
\<close>

record env =
  fetch :: "py_error + item list"
  write_outcome :: write_outcome
  header_row :: "pystr \<Rightarrow> py_error + bool"
  update_ok :: "pystr \<Rightarrow> bool"
  append_ok :: "pystr \<Rightarrow> bool"
  smtp_ok :: bool

definition log_msg :: "level \<Rightarrow> string \<Rightarrow> world \<Rightarrow> world" where
  "log_msg l m w = w\<lparr>logs := logs w @ [(l, m)]\<rparr>"

definition emit :: "effect \<Rightarrow> world \<Rightarrow> world" where
  "emit e w = w\<lparr>effects := effects w @ [e]\<rparr>"

text \<open>\<open>try: body except Exception as e: handler\<close>\<close>

definition catch :: "(py_error + 'a) \<Rightarrow> (py_error \<Rightarrow> py_error + 'a) \<Rightarrow> py_error + 'a" where
  "catch body handler = (case body of Inl e \<Rightarrow> handler e | Inr v \<Rightarrow> Inr v)"

section \<open>The snapshot store\<close>

text \<open>
  \<open>InventoryMonitor._load_history\<close>, with \<open>json.load\<close> as a parameter: the history it
  returns and what it logs.
\<close>

definition open_read :: "backing_file \<Rightarrow> py_error + pystr" where
  "open_read f = (case f of Content s \<Rightarrow> Inr s | _ \<Rightarrow> Inl OtherError)"

definition load_history ::
  "(pystr \<Rightarrow> py_error + history) \<Rightarrow> backing_file \<Rightarrow> py_error + (history \<times> (level \<times> string) list)" where
  "load_history json_load f =
     (if f \<noteq> Missing then
        catch
          (case open_read f of
             Inl e \<Rightarrow> Inl e
           | Inr s \<Rightarrow> (case json_load s of Inl e \<Rightarrow> Inl e | Inr h \<Rightarrow> Inr (h, [])))
          (\<lambda>e. Inr (Map.empty, [(LError, ''history file read error'')]))
      else Inr (Map.empty, []))"

text \<open>
  \<open>open(path, 'w')\<close> followed by the write of a text: \<open>open\<close> truncates the file, then
  the text is written from its start.
\<close>

definition write_file :: "write_outcome \<Rightarrow> pystr \<Rightarrow> backing_file \<Rightarrow> py_error option \<times> backing_file" where
  "write_file outcome text f =
     (case outcome of
        OpenFails \<Rightarrow> (Some OtherError, f)
      | Interrupted n \<Rightarrow> (Some OtherError, Content (take n text))
      | WriteOk \<Rightarrow> (None, Content text))"

text \<open>\<open>InventoryMonitor._save_history\<close>, with \<open>json.dump\<close> as a parameter.\<close>

definition save_history :: "(history \<Rightarrow> pystr) \<Rightarrow> env \<Rightarrow> world \<Rightarrow> world" where
  "save_history json_dump ev w =
     (case write_file (write_outcome ev) (json_dump (history w)) (storage w) of
        (None, f) \<Rightarrow> log_msg LDebug ''history saved'' (w\<lparr>storage := f\<rparr>)
      | (Some e, f) \<Rightarrow> log_msg LError ''history file write error'' (w\<lparr>storage := f\<rparr>))"

text \<open>
  The rows of \<open>_save_to_sheets\<close> (lines 212 to 219). Each row reads \<open>item['expiry_date']\<close>
  and then the clock, for the default of \<open>item.get('scraped_at', ...)\<close>.
\<close>

fun inventory_rows :: "clock \<Rightarrow> nat \<Rightarrow> item list \<Rightarrow> (py_error + row list) \<times> nat" where
  "inventory_rows clk t [] = (Inr [], t)"
| "inventory_rows clk t (it # rest) =
     (case expiry_date it of
        None \<Rightarrow> (Inl (KeyError (ascii ''expiry_date'')), t)
      | Some e \<Rightarrow>
          (case inventory_rows clk (Suc t) rest of
             (Inl err, t') \<Rightarrow> (Inl err, t')
           | (Inr rows, t') \<Rightarrow>
               (Inr (InventoryRow (product it) (quantity it) e
                       (case scraped_at it of None \<Rightarrow> Now (clk t) | Some s \<Rightarrow> Scraped s) # rows),
                t')))"

text \<open>
  The header check shared by \<open>_save_to_sheets\<close> and \<open>save_changes_to_sheets\<close>: the
  exception that leaves it, if any, and the world after it.
\<close>

definition ensure_header :: "env \<Rightarrow> pystr \<Rightarrow> world \<Rightarrow> py_error option \<times> world" where
  "ensure_header ev sheet_name w =
     (case header_row ev sheet_name of
        Inl e \<Rightarrow> (Some e, w)
      | Inr True \<Rightarrow> (None, w)
      | Inr False \<Rightarrow>
          if update_ok ev sheet_name then (None, emit (SheetHeader sheet_name) w)
          else (Some OtherError, w))"

text \<open>\<open>if rows: self.sheets_client.append_rows(sheet_name, rows)\<close>, which logs or raises.\<close>

definition append_rows :: "env \<Rightarrow> pystr \<Rightarrow> row list \<Rightarrow> world \<Rightarrow> py_error option \<times> world" where
  "append_rows ev sheet_name rows w =
     (if rows = [] then (None, w)
      else if append_ok ev sheet_name then
        (None, log_msg LInfo ''rows saved to sheet''
                 (log_msg LInfo ''rows appended'' (emit (SheetAppend sheet_name rows) w)))
      else (Some OtherError, log_msg LError ''sheet update error'' w))"

text \<open>\<open>InventoryMonitor._save_to_sheets\<close>: every exception is logged and dropped.\<close>

definition save_to_sheets :: "config \<Rightarrow> env \<Rightarrow> clock \<Rightarrow> item list \<Rightarrow> pystr \<Rightarrow> world \<Rightarrow> world" where
  "save_to_sheets cfg ev clk inventory sheet_name w =
     (if \<not> sheets_client cfg then w
      else
        (case ensure_header ev sheet_name w of
           (Some e, w1) \<Rightarrow> log_msg LError ''sheet save error'' w1
         | (None, w1) \<Rightarrow>
             (case inventory_rows clk (ticks w1) inventory of
                (Inl e, t') \<Rightarrow> log_msg LError ''sheet save error'' (w1\<lparr>ticks := t'\<rparr>)
              | (Inr rows, t') \<Rightarrow>
                  (case append_rows ev sheet_name rows (w1\<lparr>ticks := t'\<rparr>) of
                     (Some e, w2) \<Rightarrow> log_msg LError ''sheet save error'' w2
                   | (None, w2) \<Rightarrow> w2))))"

text \<open>\<open>InventoryMonitor.save_inventory_snapshot\<close>\<close>

definition save_inventory_snapshot ::
  "config \<Rightarrow> env \<Rightarrow> clock \<Rightarrow> (history \<Rightarrow> pystr) \<Rightarrow> item list \<Rightarrow> pystr \<Rightarrow> world \<Rightarrow> world" where
  "save_inventory_snapshot cfg ev clk json_dump inventory key w =
     (let w1 = w\<lparr>history := (history w)(key \<mapsto> Listing inventory)\<rparr>;
          w2 = w1\<lparr>history := (history w1)(key @ ascii ''_timestamp'' \<mapsto> Stamp (clk (ticks w1))),
                   ticks := Suc (ticks w1)\<rparr>;
          w3 = save_history json_dump ev w2
      in if sheets_client cfg then save_to_sheets cfg ev clk inventory key w3 else w3)"

text \<open>
  \<open>InventoryMonitor.save_changes_to_sheets\<close>: the rows are all the change events of the
  change set, read with \<open>.get\<close>, so building them cannot raise.
\<close>

definition save_changes_to_sheets :: "config \<Rightarrow> env \<Rightarrow> change_set \<Rightarrow> world \<Rightarrow> world" where
  "save_changes_to_sheets cfg ev cs w =
     (if \<not> sheets_client cfg then w
      else
        (case ensure_header ev (ascii ''InventoryChanges'') w of
           (Some e, w1) \<Rightarrow> log_msg LError ''changes sheet save error'' w1
         | (None, w1) \<Rightarrow>
             (case append_rows ev (ascii ''InventoryChanges'') (map ChangeRow (changes cs)) w1 of
                (Some e, w2) \<Rightarrow> log_msg LError ''changes sheet save error'' w2
              | (None, w2) \<Rightarrow> w2)))"

section \<open>The notifier (\<open>inventory_notifier.py\<close>)\<close>

text \<open>
  The listing of the current stock in a report reads \<open>item['expiry_date']\<close> of every
  item whose product has a shipment: it raises \<open>KeyError\<close> when one of them has none.
\<close>

definition stock_lines_fail :: "change_info list \<Rightarrow> item list \<Rightarrow> bool" where
  "stock_lines_fail shipments inventory \<longleftrightarrow>
     (\<exists>it\<in>set inventory. product it \<in> ch_product ` set shipments \<and> expiry_date it = None)"

text \<open>
  \<open>_send_email_notification\<close>: without credentials a warning; otherwise the body is
  built (one reading of the clock, then the stock lines) and sent, and every exception is
  logged and dropped.
\<close>

definition send_email_notification ::
  "config \<Rightarrow> env \<Rightarrow> change_info list \<Rightarrow> item list \<Rightarrow> world \<Rightarrow> world" where
  "send_email_notification cfg ev shipments inventory w =
     (if \<not> smtp_credentials cfg then log_msg LWarning ''no SMTP credentials'' w
      else
        (let w1 = w\<lparr>ticks := Suc (ticks w)\<rparr> in
         if stock_lines_fail shipments inventory \<or> \<not> smtp_ok ev
         then log_msg LError ''mail send error'' w1
         else log_msg LInfo ''notification mail sent'' (emit (ShipmentEmail shipments) w1)))"

text \<open>
  \<open>_print_notification\<close>: one reading of the clock, the shipments, then the stock lines,
  outside of any \<open>try\<close>.
\<close>

definition print_notification ::
  "change_info list \<Rightarrow> item list \<Rightarrow> world \<Rightarrow> py_error option \<times> world" where
  "print_notification shipments inventory w =
     (let w1 = emit (ShipmentConsole shipments) (w\<lparr>ticks := Suc (ticks w)\<rparr>) in
      if stock_lines_fail shipments inventory
      then (Some (KeyError (ascii ''expiry_date'')), w1)
      else (None, w1))"

text \<open>\<open>InventoryNotifier.notify_shipment\<close>\<close>

definition notify_shipment ::
  "config \<Rightarrow> env \<Rightarrow> change_set \<Rightarrow> item list \<Rightarrow> world \<Rightarrow> py_error option \<times> world" where
  "notify_shipment cfg ev cs inventory w =
     (let shipments = filter (\<lambda>c. ch_type c = Shipment) (changes cs) in
      if shipments = [] then (None, log_msg LInfo ''no shipment detected'' w)
      else
        (let w1 = log_msg LInfo ''shipments detected'' w;
             w2 = (if notification_email cfg
                   then send_email_notification cfg ev shipments inventory w1
                   else log_msg LWarning ''no notification address'' w1)
         in print_notification shipments inventory w2))"

text \<open>
  \<open>InventoryNotifier.notify_expiring_soon\<close>: the products it is given come from the
  scanner, so each has its \<open>expiry_date\<close>.
\<close>

definition notify_expiring_soon :: "config \<Rightarrow> env \<Rightarrow> expiring_item list \<Rightarrow> world \<Rightarrow> world" where
  "notify_expiring_soon cfg ev expiring w =
     (if expiring = [] then w
      else
        (let w1 = log_msg LInfo ''products expiring soon'' w;
             w2 = (if notification_email cfg \<and> smtp_credentials cfg
                   then (if smtp_ok ev
                         then log_msg LInfo ''expiry mail sent'' (emit (ExpiryEmail expiring) w1)
                         else log_msg LError ''mail send error'' w1)
                   else w1)
         in emit (ExpiryConsole expiring) w2))"

section \<open>One monitoring cycle: \<open>check_inventory_once\<close>\<close>

text \<open>Lines 66 to 73: the shipments of the change set, the notification, the changes sheet.\<close>

definition shipment_step ::
  "config \<Rightarrow> env \<Rightarrow> change_set \<Rightarrow> item list \<Rightarrow> world \<Rightarrow> py_error option \<times> world" where
  "shipment_step cfg ev cs current w =
     (if filter (\<lambda>c. ch_type c = Shipment) (changes cs) \<noteq> [] then
        (case notify_shipment cfg ev cs current (log_msg LInfo ''shipments detected'' w) of
           (Some e, w1) \<Rightarrow> (Some e, w1)
         | (None, w1) \<Rightarrow> (None, save_changes_to_sheets cfg ev cs w1))
      else (None, w))"

text \<open>Lines 82 to 90: the expiry check and the closing log record.\<close>

definition expiry_step ::
  "config \<Rightarrow> env \<Rightarrow> clock \<Rightarrow> (pystr \<Rightarrow> datetime option) \<Rightarrow> bool \<Rightarrow> int \<Rightarrow> item list \<Rightarrow> world
     \<Rightarrow> py_error option \<times> world" where
  "expiry_step cfg ev clk strptime check_expiry expiry_days current w =
     (if check_expiry then
        (case get_expiring_soon_products strptime clk (ticks w) current expiry_days of
           Inl e \<Rightarrow> (Some e, w)
         | Inr (expiring, t') \<Rightarrow>
             (None, log_msg LInfo ''inventory check done''
                      (notify_expiring_soon cfg ev expiring (w\<lparr>ticks := t'\<rparr>))))
      else (None, log_msg LInfo ''inventory check done'' w))"

text \<open>The body of the \<open>try\<close> of lines 46 to 90: the exception that leaves it, if any.\<close>

definition cycle_body ::
  "config \<Rightarrow> env \<Rightarrow> clock \<Rightarrow> (pystr \<Rightarrow> datetime option) \<Rightarrow> (history \<Rightarrow> pystr) \<Rightarrow> bool \<Rightarrow> int
     \<Rightarrow> world \<Rightarrow> py_error option \<times> world" where
  "cycle_body cfg ev clk strptime json_dump check_expiry expiry_days w =
     (case fetch ev of
        Inl e \<Rightarrow> (Some e, w)
      | Inr current \<Rightarrow>
          if current = [] then (None, log_msg LWarning ''no inventory fetched'' w)
          else
            (let w1 = log_msg LInfo ''inventory fetched'' w in
             case compare_inventory clk (ticks w1) (history w1) current (ascii ''latest'') of
               Inl e \<Rightarrow> (Some e, w1)
             | Inr (cs, t') \<Rightarrow>
                 (case shipment_step cfg ev cs current (w1\<lparr>ticks := t'\<rparr>) of
                    (Some e, w2) \<Rightarrow> (Some e, w2)
                  | (None, w2) \<Rightarrow>
                      (let w3 = (if new_products cs \<noteq> []
                                 then log_msg LInfo ''new products detected'' w2 else w2);
                           w4 = save_inventory_snapshot cfg ev clk json_dump current
                                  (ascii ''latest'') w3
                       in expiry_step cfg ev clk strptime check_expiry expiry_days current w4))))"

definition check_inventory_once ::
  "config \<Rightarrow> env \<Rightarrow> clock \<Rightarrow> (pystr \<Rightarrow> datetime option) \<Rightarrow> (history \<Rightarrow> pystr) \<Rightarrow> bool \<Rightarrow> int
     \<Rightarrow> world \<Rightarrow> world" where
  "check_inventory_once cfg ev clk strptime json_dump check_expiry expiry_days w =
     (case cycle_body cfg ev clk strptime json_dump check_expiry expiry_days
             (log_msg LInfo ''inventory check started'' w) of
        (None, w') \<Rightarrow> w'
      | (Some e, w') \<Rightarrow> log_msg LError ''inventory check error'' w')"

section \<open>Example values\<close>

definition ex_item :: "string \<Rightarrow> int \<Rightarrow> string \<Rightarrow> item" where
  "ex_item name q e =
     \<lparr> product = ascii name, quantity = q, expiry_date = Some (ascii e), scraped_at = None \<rparr>"

text \<open>A clock that stands still.\<close>

definition fixed_clock :: "datetime \<Rightarrow> clock" where
  "fixed_clock now = (\<lambda>n. now)"

text \<open>2024-01-10T12:00:00.\<close>

definition noon_2024_01_10 :: datetime where
  "noon_2024_01_10 = 63840484800000000"

section \<open>Facts about the differ\<close>

lemma map_of_dict_set: "map_of (dict_set d k v) = (map_of d)(k \<mapsto> v)"
  by (induction d k v rule: dict_set.induct) (auto simp: fun_eq_iff)

lemma keys_dict_set: "fst ` set (dict_set d k v) = insert k (fst ` set d)"
  by (induction d k v rule: dict_set.induct) auto

lemma distinct_dict_set: "distinct (map fst d) \<Longrightarrow> distinct (map fst (dict_set d k v))"
proof (induction d k v rule: dict_set.induct)
  case (1 k v) then show ?case by simp
next
  case (2 k' v' d k v)
  then show ?case using keys_dict_set[of d k v] by (auto simp: image_iff) 
qed

lemma index_fold_props:
  "distinct (map fst d) \<Longrightarrow>
   distinct (map fst (foldl (\<lambda>d it. dict_set d (product it) it) d xs)) \<and>
   map_of (foldl (\<lambda>d it. dict_set d (product it) it) d xs)
     = map_of d ++ map_of (rev (map (\<lambda>it. (product it, it)) xs))"
proof (induction xs arbitrary: d)
  case Nil then show ?case by simp
next
  case (Cons x xs)
  have "distinct (map fst (dict_set d (product x) x))" using Cons.prems by (rule distinct_dict_set)
  from Cons.IH[OF this] show ?case
    by (simp add: map_of_dict_set map_add_def fun_eq_iff split: option.splits)
qed

lemma distinct_index: "distinct (map fst (index_by_product xs))"
  unfolding index_by_product_def using index_fold_props[of "[]" xs] by simp

lemma map_of_index: "map_of (index_by_product xs) = map_of (rev (map (\<lambda>it. (product it, it)) xs))"
  unfolding index_by_product_def using index_fold_props[of "[]" xs] by simp

lemma index_values: "(k, v) \<in> set (index_by_product xs) \<Longrightarrow> v \<in> set xs \<and> product v = k"
proof -
  assume a: "(k, v) \<in> set (index_by_product xs)"
  then have "map_of (index_by_product xs) k = Some v" using distinct_index by simp
  then have "map_of (rev (map (\<lambda>it. (product it, it)) xs)) k = Some v" by (simp add: map_of_index)
  then have "(k, v) \<in> set (rev (map (\<lambda>it. (product it, it)) xs))" by (rule map_of_SomeD)
  then show ?thesis by auto
qed


lemma make_change_erase: "(make_change n c ce pv ts)\<lparr>ch_timestamp := 0\<rparr> = make_change n c ce pv 0"
  by (simp add: make_change_def Let_def)

lemma scan_current_ok:
  "\<forall>e\<in>set cd. expiry_date (snd e) \<noteq> None \<Longrightarrow>
   \<exists>cs ns t'. scan_current clk t cd pd = Inr (cs, ns, t') \<and>
      map (\<lambda>c. c\<lparr>ch_timestamp := 0\<rparr>) cs = List.map_filter (change_for pd) cd \<and>
      map (\<lambda>n. n\<lparr>np_timestamp := 0\<rparr>) ns = List.map_filter (new_for pd) cd"
proof (induction cd arbitrary: t)
  case Nil
  then show ?case by (simp add: map_filter_simps)
next
  case (Cons e cd)
  obtain name cur where e: "e = (name, cur)" by (cases e)
  from Cons.prems e obtain ce where ce: "expiry_date cur = Some ce" by auto
  have ge: "get_expiry cur = ce" by (simp add: get_expiry_def ce)
  have rest: "\<forall>e\<in>set cd. expiry_date (snd e) \<noteq> None" using Cons.prems by simp
  show ?case
  proof (cases "map_of pd name")
    case None
    from Cons.IH[OF rest, of "Suc t"] obtain cs ns t' where
      "scan_current clk (Suc t) cd pd = Inr (cs, ns, t')"
      "map (\<lambda>c. c\<lparr>ch_timestamp := 0\<rparr>) cs = List.map_filter (change_for pd) cd"
      "map (\<lambda>n. n\<lparr>np_timestamp := 0\<rparr>) ns = List.map_filter (new_for pd) cd" by blast
    moreover have "change_for pd (name, cur) = None"
      "new_for pd (name, cur) = Some \<lparr> np_product = name, np_quantity = quantity cur,
                       np_expiry_date = ce, np_timestamp = 0 \<rparr>"
      using None ge by (simp_all add: change_for_def new_for_def)
    ultimately show ?thesis using None e ce
      by (simp add: map_filter_simps)
  next
    case (Some pv)
    show ?thesis
    proof (cases "quantity cur - quantity pv \<noteq> 0 \<or> ce \<noteq> get_expiry pv")
      case True
      from Cons.IH[OF rest, of "Suc t"] obtain cs ns t' where
        "scan_current clk (Suc t) cd pd = Inr (cs, ns, t')"
        "map (\<lambda>c. c\<lparr>ch_timestamp := 0\<rparr>) cs = List.map_filter (change_for pd) cd"
        "map (\<lambda>n. n\<lparr>np_timestamp := 0\<rparr>) ns = List.map_filter (new_for pd) cd" by blast
      moreover have "change_for pd (name, cur) = Some (make_change name cur ce pv 0)"
        "new_for pd (name, cur) = None"
        using Some ge True by (simp_all add: change_for_def new_for_def)
      ultimately show ?thesis using Some e ce True
        by (simp add: map_filter_simps make_change_erase)
    next
      case False
      from Cons.IH[OF rest, of t] obtain cs ns t' where
        "scan_current clk t cd pd = Inr (cs, ns, t')"
        "map (\<lambda>c. c\<lparr>ch_timestamp := 0\<rparr>) cs = List.map_filter (change_for pd) cd"
        "map (\<lambda>n. n\<lparr>np_timestamp := 0\<rparr>) ns = List.map_filter (new_for pd) cd" by blast
      moreover have "change_for pd (name, cur) = None" "new_for pd (name, cur) = None"
        using Some ge False by (simp_all add: change_for_def new_for_def)
      ultimately show ?thesis using Some e ce False
        by (simp add: map_filter_simps)
    qed
  qed
qed

lemma scan_previous_ok:
  "\<exists>rs t'. scan_previous clk t pd cd = (rs, t') \<and>
      map (\<lambda>r. r\<lparr>rp_timestamp := 0\<rparr>) rs = List.map_filter (removed_for cd) pd"
proof (induction pd arbitrary: t)
  case Nil
  then show ?case by (simp add: map_filter_simps)
next
  case (Cons e pd)
  obtain name pv where e: "e = (name, pv)" by (cases e)
  show ?case
  proof (cases "map_of cd name")
    case None
    from Cons.IH[of "Suc t"] obtain rs t' where
      "scan_previous clk (Suc t) pd cd = (rs, t')"
      "map (\<lambda>r. r\<lparr>rp_timestamp := 0\<rparr>) rs = List.map_filter (removed_for cd) pd" by blast
    moreover have "removed_for cd (name, pv) = Some \<lparr> rp_product = name,
        rp_previous_quantity = quantity pv, rp_timestamp = 0 \<rparr>"
      using None by (simp add: removed_for_def)
    ultimately show ?thesis using None e by (simp add: map_filter_simps)
  next
    case (Some c)
    from Cons.IH[of t] obtain rs t' where
      "scan_previous clk t pd cd = (rs, t')"
      "map (\<lambda>r. r\<lparr>rp_timestamp := 0\<rparr>) rs = List.map_filter (removed_for cd) pd" by blast
    moreover have "removed_for cd (name, pv) = None"
      using Some by (simp add: removed_for_def)
    ultimately show ?thesis using Some e by (simp add: map_filter_simps)
  qed
qed

lemma diff_listings_ok:
  assumes "\<forall>it\<in>set current. expiry_date it \<noteq> None"
  shows "\<exists>cs t'. diff_listings clk t current previous = Inr (cs, t') \<and>
      map (\<lambda>c. c\<lparr>ch_timestamp := 0\<rparr>) (changes cs)
        = List.map_filter (change_for (index_by_product previous)) (index_by_product current) \<and>
      map (\<lambda>n. n\<lparr>np_timestamp := 0\<rparr>) (new_products cs)
        = List.map_filter (new_for (index_by_product previous)) (index_by_product current) \<and>
      map (\<lambda>r. r\<lparr>rp_timestamp := 0\<rparr>) (removed_products cs)
        = List.map_filter (removed_for (index_by_product current)) (index_by_product previous)"
proof -
  let ?cd = "index_by_product current" and ?pd = "index_by_product previous"
  have "\<forall>e\<in>set ?cd. expiry_date (snd e) \<noteq> None"
    using assms index_values[of _ _ current] by auto
  from scan_current_ok[OF this, of clk t ?pd] obtain cs ns t1 where
    1: "scan_current clk t ?cd ?pd = Inr (cs, ns, t1)"
    and 2: "map (\<lambda>c. c\<lparr>ch_timestamp := 0\<rparr>) cs = List.map_filter (change_for ?pd) ?cd"
    and 3: "map (\<lambda>n. n\<lparr>np_timestamp := 0\<rparr>) ns = List.map_filter (new_for ?pd) ?cd" by blast
  from scan_previous_ok[of clk t1 ?pd ?cd] obtain rs t2 where
    4: "scan_previous clk t1 ?pd ?cd = (rs, t2)"
    and 5: "map (\<lambda>r. r\<lparr>rp_timestamp := 0\<rparr>) rs = List.map_filter (removed_for ?cd) ?pd" by blast
  show ?thesis using 1 2 3 4 5 by (simp add: diff_listings_def)
qed

lemma filter_map_filter_key:
  assumes "distinct (map fst d)" and "(p, c) \<in> set d"
    and "\<And>e x. f e = Some x \<Longrightarrow> key x = fst e"
  shows "filter (\<lambda>x. key x = p) (List.map_filter f d) = (case f (p, c) of Some x \<Rightarrow> [x] | None \<Rightarrow> [])"
  using assms(1,2)
proof (induction d)
  case Nil then show ?case by simp
next
  case (Cons e d)
  have none: "p \<notin> fst ` set d' \<Longrightarrow> filter (\<lambda>x. key x = p) (List.map_filter f d') = []" for d'
  proof (induction d')
    case Nil then show ?case by (simp add: map_filter_simps)
  next
    case (Cons a d') then show ?case using assms(3)[of a]
      by (cases "f a") (auto simp: map_filter_simps)
  qed
  show ?case
  proof (cases "e = (p, c)")
    case True
    then have "p \<notin> fst ` set d" using Cons.prems by auto
    from none[OF this] show ?thesis using True assms(3)[of "(p, c)"]
      by (cases "f (p, c)") (auto simp: map_filter_simps)
  next
    case False
    then have in_d: "(p, c) \<in> set d" and ne: "fst e \<noteq> p" using Cons.prems by (auto simp: image_iff)
    have "distinct (map fst d)" using Cons.prems by simp
    from Cons.IH[OF this in_d] show ?thesis using ne assms(3)[of e]
      by (cases "f e") (auto simp: map_filter_simps)
  qed
qed


lemma change_for_key: "change_for pd e = Some x \<Longrightarrow> ch_product x = fst e"
  by (auto simp: change_for_def make_change_def Let_def split: option.splits if_splits)



lemma filter_erase_ch:
  "map (\<lambda>c. c\<lparr>ch_timestamp := 0\<rparr>) (filter (\<lambda>e. ch_product e = p) xs)
     = filter (\<lambda>e. ch_product e = p) (map (\<lambda>c. c\<lparr>ch_timestamp := 0\<rparr>) xs)"
  by (induction xs) auto
















section \<open>The claims about the differ\<close>

text \<open>
  Claim C1. For every pair of listings and every product present in both, matched by the
  product-name key of the two dictionaries, the differ emits a change event iff
  \<open>quantity_diff = current.quantity - previous.quantity\<close> is non-zero or the expiry
  strings differ. There is at most one such event; it carries the two quantities and their
  difference; it is tagged \<open>Shipment\<close> with \<open>shipped_quantity = abs(quantity_diff)\<close> when
  the difference is negative, and \<open>Increase\<close> otherwise, which includes a zero difference
  with only the expiry changed. The listings are well typed: the stored value is a listing
  and every current item has its \<open>expiry_date\<close>.
\<close>

theorem differ_classifies_common_products:
  assumes "history_get h previous_key = Listing previous"
    and "\<forall>it\<in>set current. expiry_date it \<noteq> None"
    and "map_of (index_by_product current) p = Some c"
    and "map_of (index_by_product previous) p = Some pv"
  shows "\<exists>cs t'. compare_inventory clk t h current previous_key = Inr (cs, t') \<and>
    (let qd = quantity c - quantity pv;
         ec = (get_expiry c \<noteq> get_expiry pv);
         evs = filter (\<lambda>e. ch_product e = p) (changes cs)
     in (evs \<noteq> [] \<longleftrightarrow> qd \<noteq> 0 \<or> ec) \<and> length evs \<le> 1 \<and>
        (\<forall>e\<in>set evs. quantity_diff e = qd \<and> expiry_changed e = ec \<and>
           previous_quantity e = quantity pv \<and> current_quantity e = quantity c \<and>
           (if qd < 0 then ch_type e = Shipment \<and> shipped_quantity e = Some \<bar>qd\<bar>
            else ch_type e = Increase \<and> shipped_quantity e = None)))"
proof -
  let ?cd = "index_by_product current" and ?pd = "index_by_product previous"
  from diff_listings_ok[OF assms(2), of clk t previous] obtain cs t' where
    run: "diff_listings clk t current previous = Inr (cs, t')"
    and ch: "map (\<lambda>c. c\<lparr>ch_timestamp := 0\<rparr>) (changes cs) = List.map_filter (change_for ?pd) ?cd"
    by blast
  define evs where "evs = filter (\<lambda>e. ch_product e = p) (changes cs)"
  have mem: "(p, c) \<in> set ?cd" using assms(3) by (rule map_of_SomeD)
  have "map (\<lambda>c. c\<lparr>ch_timestamp := 0\<rparr>) evs
          = filter (\<lambda>e. ch_product e = p) (List.map_filter (change_for ?pd) ?cd)"
    by (simp add: evs_def filter_erase_ch ch)
  also have "\<dots> = (case change_for ?pd (p, c) of Some x \<Rightarrow> [x] | None \<Rightarrow> [])"
    using distinct_index mem change_for_key by (rule filter_map_filter_key)
  finally have evs: "map (\<lambda>c. c\<lparr>ch_timestamp := 0\<rparr>) evs
      = (if quantity c - quantity pv \<noteq> 0 \<or> get_expiry c \<noteq> get_expiry pv
         then [make_change p c (get_expiry c) pv 0] else [])"
    using assms(4) by (simp add: change_for_def)
  have res: "compare_inventory clk t h current previous_key = Inr (cs, t')"
    using run assms(1) by (simp add: compare_inventory_def)
  have body: "(evs \<noteq> [] \<longleftrightarrow> quantity c - quantity pv \<noteq> 0 \<or> get_expiry c \<noteq> get_expiry pv) \<and>
      length evs \<le> 1 \<and>
      (\<forall>e\<in>set evs. quantity_diff e = quantity c - quantity pv \<and>
           expiry_changed e = (get_expiry c \<noteq> get_expiry pv) \<and>
           previous_quantity e = quantity pv \<and> current_quantity e = quantity c \<and>
           (if quantity c - quantity pv < 0
            then ch_type e = Shipment \<and> shipped_quantity e = Some \<bar>quantity c - quantity pv\<bar>
            else ch_type e = Increase \<and> shipped_quantity e = None))"
  proof (cases "quantity c - quantity pv \<noteq> 0 \<or> get_expiry c \<noteq> get_expiry pv")
    case False
    with evs have "evs = []" by simp
    with False show ?thesis by simp
  next
    case True
    with evs have m: "map (\<lambda>c. c\<lparr>ch_timestamp := 0\<rparr>) evs = [make_change p c (get_expiry c) pv 0]"
      by simp
    then obtain e where e: "evs = [e]" and ee: "e\<lparr>ch_timestamp := 0\<rparr> = make_change p c (get_expiry c) pv 0"
      by (cases evs) auto
    have f1: "quantity_diff e = quantity_diff (e\<lparr>ch_timestamp := 0\<rparr>)"
      and f2: "expiry_changed e = expiry_changed (e\<lparr>ch_timestamp := 0\<rparr>)"
      and f3: "previous_quantity e = previous_quantity (e\<lparr>ch_timestamp := 0\<rparr>)"
      and f4: "current_quantity e = current_quantity (e\<lparr>ch_timestamp := 0\<rparr>)"
      and f5: "ch_type e = ch_type (e\<lparr>ch_timestamp := 0\<rparr>)"
      and f6: "shipped_quantity e = shipped_quantity (e\<lparr>ch_timestamp := 0\<rparr>)"
      by simp_all
    have props: "quantity_diff e = quantity c - quantity pv"
      "expiry_changed e = (get_expiry c \<noteq> get_expiry pv)"
      "previous_quantity e = quantity pv" "current_quantity e = quantity c"
      "ch_type e = (if quantity c - quantity pv < 0 then Shipment else Increase)"
      "shipped_quantity e = (if quantity c - quantity pv < 0 then Some \<bar>quantity c - quantity pv\<bar> else None)"
      unfolding f1 f2 f3 f4 f5 f6 ee by (simp_all add: make_change_def Let_def)
    show ?thesis using True e props by simp
  qed
  show ?thesis using res body unfolding evs_def Let_def by blast
qed

theorem differ_classifies_common_products_witness:
  "history_get (Map.empty(ascii ''latest'' \<mapsto> Listing [ex_item ''A'' 100 ''2024-01-01'']))
       (ascii ''latest'') = Listing [ex_item ''A'' 100 ''2024-01-01''] \<and>
   expiry_date (ex_item ''A'' 60 ''2024-01-01'') \<noteq> None \<and>
   map_of (index_by_product [ex_item ''A'' 60 ''2024-01-01'']) (ascii ''A'')
     = Some (ex_item ''A'' 60 ''2024-01-01'') \<and>
   map_of (index_by_product [ex_item ''A'' 100 ''2024-01-01'']) (ascii ''A'')
     = Some (ex_item ''A'' 100 ''2024-01-01'') \<and>
   (\<exists>cs t'. compare_inventory int 0
        (Map.empty(ascii ''latest'' \<mapsto> Listing [ex_item ''A'' 100 ''2024-01-01'']))
        [ex_item ''A'' 60 ''2024-01-01''] (ascii ''latest'') = Inr (cs, t') \<and>
      (\<exists>e. filter (\<lambda>e. ch_product e = ascii ''A'') (changes cs) = [e] \<and>
           ch_type e = Shipment \<and> shipped_quantity e = Some 40 \<and> quantity_diff e = - 40))"
proof -
  let ?h = "Map.empty(ascii ''latest'' \<mapsto> Listing [ex_item ''A'' 100 ''2024-01-01''])"
  have h1: "history_get ?h (ascii ''latest'') = Listing [ex_item ''A'' 100 ''2024-01-01'']"
    by (simp add: history_get_def)
  have h2: "\<forall>it\<in>set [ex_item ''A'' 60 ''2024-01-01'']. expiry_date it \<noteq> None"
    by (simp add: ex_item_def)
  have h2': "expiry_date (ex_item ''A'' 60 ''2024-01-01'') \<noteq> None"
    by (simp add: ex_item_def)
  have h3: "map_of (index_by_product [ex_item ''A'' 60 ''2024-01-01'']) (ascii ''A'')
     = Some (ex_item ''A'' 60 ''2024-01-01'')"
    by (simp add: index_by_product_def ex_item_def)
  have h4: "map_of (index_by_product [ex_item ''A'' 100 ''2024-01-01'']) (ascii ''A'')
     = Some (ex_item ''A'' 100 ''2024-01-01'')"
    by (simp add: index_by_product_def ex_item_def)
  from differ_classifies_common_products[OF h1 h2 h3 h4, of int 0]
  obtain cs t' where r: "compare_inventory int 0 ?h [ex_item ''A'' 60 ''2024-01-01''] (ascii ''latest'') = Inr (cs, t')"
    and p: "(let qd = quantity (ex_item ''A'' 60 ''2024-01-01'') - quantity (ex_item ''A'' 100 ''2024-01-01'');
         ec = (get_expiry (ex_item ''A'' 60 ''2024-01-01'') \<noteq> get_expiry (ex_item ''A'' 100 ''2024-01-01''));
         evs = filter (\<lambda>e. ch_product e = ascii ''A'') (changes cs)
     in (evs \<noteq> [] \<longleftrightarrow> qd \<noteq> 0 \<or> ec) \<and> length evs \<le> 1 \<and>
        (\<forall>e\<in>set evs. quantity_diff e = qd \<and> expiry_changed e = ec \<and>
           previous_quantity e = quantity (ex_item ''A'' 100 ''2024-01-01'') \<and> current_quantity e = quantity (ex_item ''A'' 60 ''2024-01-01'') \<and>
           (if qd < 0 then ch_type e = Shipment \<and> shipped_quantity e = Some \<bar>qd\<bar>
            else ch_type e = Increase \<and> shipped_quantity e = None)))" by blast
  define evs where "evs = filter (\<lambda>e. ch_product e = ascii ''A'') (changes cs)"
  from p have ne: "evs \<noteq> []" and le: "length evs \<le> 1"
    and all: "\<forall>e\<in>set evs. quantity_diff e = - 40 \<and> ch_type e = Shipment \<and> shipped_quantity e = Some 40"
    unfolding evs_def[symmetric] Let_def by (simp_all add: ex_item_def)
  from ne le obtain e where e: "evs = [e]" by (cases evs) auto
  with all have "ch_type e = Shipment \<and> shipped_quantity e = Some 40 \<and> quantity_diff e = - 40" by simp
  with e r h1 h2' h3 h4 show ?thesis unfolding evs_def by blast
qed



text \<open>
  Claim C3, as amended. The differ reads the clock for every event and for the change set,
  so its result is a function of the listings and of the clock. For well-typed listings it
  never raises, and two runs on equal listings give change sets that are equal once the
  timestamps are erased, whatever the two clocks read.
\<close>

theorem differ_equal_up_to_timestamps:
  assumes "history_get h previous_key = Listing previous"
    and "\<forall>it\<in>set current. expiry_date it \<noteq> None"
  shows "\<exists>cs1 t1' cs2 t2'.
     compare_inventory clk1 t1 h current previous_key = Inr (cs1, t1') \<and>
     compare_inventory clk2 t2 h current previous_key = Inr (cs2, t2') \<and>
     erase_timestamps cs1 = erase_timestamps cs2"
proof -
  from diff_listings_ok[OF assms(2), of clk1 t1 previous] obtain cs1 t1' where
    1: "diff_listings clk1 t1 current previous = Inr (cs1, t1')"
       "map (\<lambda>c. c\<lparr>ch_timestamp := 0\<rparr>) (changes cs1) = List.map_filter (change_for (index_by_product previous)) (index_by_product current)"
       "map (\<lambda>n. n\<lparr>np_timestamp := 0\<rparr>) (new_products cs1) = List.map_filter (new_for (index_by_product previous)) (index_by_product current)"
       "map (\<lambda>r. r\<lparr>rp_timestamp := 0\<rparr>) (removed_products cs1) = List.map_filter (removed_for (index_by_product current)) (index_by_product previous)"
    by blast
  from diff_listings_ok[OF assms(2), of clk2 t2 previous] obtain cs2 t2' where
    2: "diff_listings clk2 t2 current previous = Inr (cs2, t2')"
       "map (\<lambda>c. c\<lparr>ch_timestamp := 0\<rparr>) (changes cs2) = List.map_filter (change_for (index_by_product previous)) (index_by_product current)"
       "map (\<lambda>n. n\<lparr>np_timestamp := 0\<rparr>) (new_products cs2) = List.map_filter (new_for (index_by_product previous)) (index_by_product current)"
       "map (\<lambda>r. r\<lparr>rp_timestamp := 0\<rparr>) (removed_products cs2) = List.map_filter (removed_for (index_by_product current)) (index_by_product previous)"
    by blast
  have "erase_timestamps cs1 = erase_timestamps cs2"
    by (simp add: erase_timestamps_def 1 2)
  with 1(1) 2(1) assms(1) show ?thesis by (simp add: compare_inventory_def)
qed

theorem differ_equal_up_to_timestamps_witness:
  "history_get Map.empty (ascii ''latest'') = Listing [] \<and>
   expiry_date (ex_item ''A'' 60 ''2024-01-01'') \<noteq> None \<and>
   (\<exists>cs1 t1' cs2 t2'.
      compare_inventory int 0 Map.empty [ex_item ''A'' 60 ''2024-01-01''] (ascii ''latest'')
        = Inr (cs1, t1') \<and>
      compare_inventory (int \<circ> Suc) 0 Map.empty [ex_item ''A'' 60 ''2024-01-01''] (ascii ''latest'')
        = Inr (cs2, t2') \<and>
      erase_timestamps cs1 = erase_timestamps cs2)"
proof -
  have h1: "history_get Map.empty (ascii ''latest'') = Listing []"
    by (simp add: history_get_def)
  have h2: "\<forall>it\<in>set [ex_item ''A'' 60 ''2024-01-01'']. expiry_date it \<noteq> None"
    by (simp add: ex_item_def)
  have h2': "expiry_date (ex_item ''A'' 60 ''2024-01-01'') \<noteq> None"
    by (simp add: ex_item_def)
  from differ_equal_up_to_timestamps[OF h1 h2, of int 0 "int \<circ> Suc" 0] h1 h2'
  show ?thesis by (intro conjI)
qed

text \<open>
  Claim C3 as stated fails: two runs on the same listings, the second one reading the clock
  one microsecond later, return different change sets.
\<close>

theorem differ_reads_clock_counterexample:
  "compare_inventory int 0 Map.empty [ex_item ''A'' 60 ''2024-01-01''] (ascii ''latest'')
     = Inr (\<lparr>changes = [],
             new_products = [\<lparr>np_product = ascii ''A'', np_quantity = 60,
                              np_expiry_date = ascii ''2024-01-01'', np_timestamp = 0\<rparr>],
             removed_products = [], cs_timestamp = 1\<rparr>, 2) \<and>
   compare_inventory (int \<circ> Suc) 0 Map.empty [ex_item ''A'' 60 ''2024-01-01''] (ascii ''latest'')
     = Inr (\<lparr>changes = [],
             new_products = [\<lparr>np_product = ascii ''A'', np_quantity = 60,
                              np_expiry_date = ascii ''2024-01-01'', np_timestamp = 1\<rparr>],
             removed_products = [], cs_timestamp = 2\<rparr>, 2)"
  by (simp add: compare_inventory_def history_get_def diff_listings_def index_by_product_def ex_item_def)


section \<open>The claim about the expiry scanner\<close>

lemma scan_expiry_props:
  "\<exists>xs t'. scan_expiry strptime clk t cutoff items = (xs, t') \<and> t \<le> t' \<and>
     map ei_item xs = filter (within_cutoff strptime cutoff) items \<and>
     (\<forall>r\<in>set xs. \<exists>k. t \<le> k \<and> k < t' \<and>
         days_until strptime (clk k) (ei_item r) = Some (days_until_expiry r))"
proof (induction items arbitrary: t)
  case Nil
  then show ?case by simp
next
  case (Cons it rest)
  show ?case
  proof (cases "within_cutoff strptime cutoff it")
    case False
    then have step: "scan_expiry strptime clk t cutoff (it # rest) = scan_expiry strptime clk t cutoff rest"
      by (auto simp: within_cutoff_def split: option.splits)
    from Cons.IH[of t] False show ?thesis unfolding step by simp
  next
    case True
    then obtain e d where ed: "expiry_date it = Some e" "strptime e = Some d" "d \<le> cutoff"
      by (auto simp: within_cutoff_def split: option.splits)
    from Cons.IH[of "Suc t"] obtain xs t' where
      r: "scan_expiry strptime clk (Suc t) cutoff rest = (xs, t')" and le: "Suc t \<le> t'"
      and m: "map ei_item xs = filter (within_cutoff strptime cutoff) rest"
      and a: "\<forall>r\<in>set xs. \<exists>k. Suc t \<le> k \<and> k < t' \<and>
         days_until strptime (clk k) (ei_item r) = Some (days_until_expiry r)" by blast
    let ?x = "\<lparr> ei_item = it, days_until_expiry = (d - clk t) div us_per_day \<rparr>"
    have step: "scan_expiry strptime clk t cutoff (it # rest) = (?x # xs, t')"
      using ed r by simp
    have hd: "days_until strptime (clk t) (ei_item ?x) = Some (days_until_expiry ?x)"
      using ed by (simp add: days_until_def)
    have all: "\<forall>r\<in>set (?x # xs). \<exists>k. t \<le> k \<and> k < t' \<and>
         days_until strptime (clk k) (ei_item r) = Some (days_until_expiry r)"
    proof
      fix r assume "r \<in> set (?x # xs)"
      then consider "r = ?x" | "r \<in> set xs" by auto
      then show "\<exists>k. t \<le> k \<and> k < t' \<and>
         days_until strptime (clk k) (ei_item r) = Some (days_until_expiry r)"
      proof cases
        case 1
        with hd le show ?thesis by (intro exI[of _ t]) simp
      next
        case 2
        with a obtain k where "Suc t \<le> k" "k < t'"
          "days_until strptime (clk k) (ei_item r) = Some (days_until_expiry r)" by blast
        then show ?thesis by (intro exI[of _ k]) simp
      qed
    qed
    have "t \<le> t'" using le by simp
    moreover have "map ei_item (?x # xs) = filter (within_cutoff strptime cutoff) (it # rest)"
      using True m by simp
    ultimately show ?thesis unfolding step using all by blast
  qed
qed

lemma mset_map_sort_key: "mset (map g (sort_key f xs)) = mset (map g xs)"
  by (metis mset_map mset_sort)

lemma sorted_sort_key_map: "sorted (map f (sort_key f xs))"
  by (rule sorted_sort_key)

lemma days_until_mono:
  assumes "days_until strptime now it = Some n" and "within_cutoff strptime (start + days * us_per_day) it"
    and "start \<le> now"
  shows "n \<le> days"
proof -
  from assms(1,2) obtain e d where ed: "expiry_date it = Some e" "strptime e = Some d"
    "d \<le> start + days * us_per_day" "n = (d - now) div us_per_day"
    by (auto simp: within_cutoff_def days_until_def split: option.splits)
  have "d - now \<le> days * us_per_day" using ed(3) assms(3) by simp
  then have "(d - now) div us_per_day \<le> (days * us_per_day) div us_per_day"
    by (rule zdiv_mono1) (simp add: us_per_day_def)
  then show ?thesis using ed(4) by (simp add: us_per_day_def)
qed

text \<open>
  Claim C5, as amended. For every listing and every horizon whose cutoff
  \<open>now + horizon days\<close> is a \<open>datetime\<close>, the expiry scanner returns exactly the items
  whose \<open>expiry_date\<close> parses and whose midnight is not after that cutoff, each once,
  with \<open>days_until_expiry\<close> the floor in days of its expiry minus a later reading of the
  clock (negative for an expired item), sorted ascending by \<open>days_until_expiry\<close>. Items
  with an unparseable or absent \<open>expiry_date\<close> are left out without an error. When the
  clock does not run backwards, every returned item has \<open>days_until_expiry\<close> at most the
  horizon.
\<close>

theorem expiry_scanner_by_cutoff:
  assumes "\<bar>days\<bar> \<le> 999999999"
    and "0 \<le> clk t + days * us_per_day"
    and "clk t + days * us_per_day \<le> datetime_max"
  shows "\<exists>res t'. get_expiring_soon_products strptime clk t inventory days = Inr (res, t') \<and>
     mset (map ei_item res)
       = mset (filter (within_cutoff strptime (clk t + days * us_per_day)) inventory) \<and>
     sorted (map days_until_expiry res) \<and>
     (\<forall>r\<in>set res. \<exists>k. t < k \<and> k < t' \<and>
         days_until strptime (clk k) (ei_item r) = Some (days_until_expiry r)) \<and>
     ((\<forall>i j. i \<le> j \<longrightarrow> clk i \<le> clk j) \<longrightarrow> (\<forall>r\<in>set res. days_until_expiry r \<le> days))"
proof -
  let ?cut = "clk t + days * us_per_day"
  have add: "datetime_add_days (clk t) days = Inr ?cut"
    using assms by (simp add: datetime_add_days_def)
  from scan_expiry_props[of strptime clk "Suc t" ?cut inventory] obtain xs t' where
    r: "scan_expiry strptime clk (Suc t) ?cut inventory = (xs, t')"
    and m: "map ei_item xs = filter (within_cutoff strptime ?cut) inventory"
    and a: "\<forall>r\<in>set xs. \<exists>k. Suc t \<le> k \<and> k < t' \<and>
         days_until strptime (clk k) (ei_item r) = Some (days_until_expiry r)" by blast
  let ?res = "sort_key days_until_expiry xs"
  have run: "get_expiring_soon_products strptime clk t inventory days = Inr (?res, t')"
    using add r by (simp add: get_expiring_soon_products_def)
  have A: "mset (map ei_item ?res) = mset (filter (within_cutoff strptime ?cut) inventory)"
    unfolding mset_map_sort_key m ..
  have B: "sorted (map days_until_expiry ?res)" by (rule sorted_sort_key_map)
  have C: "\<forall>r\<in>set ?res. \<exists>k. t < k \<and> k < t' \<and>
         days_until strptime (clk k) (ei_item r) = Some (days_until_expiry r)"
  proof
    fix r assume "r \<in> set ?res"
    then have "r \<in> set xs" by simp
    with a obtain k where "Suc t \<le> k" "k < t'"
      "days_until strptime (clk k) (ei_item r) = Some (days_until_expiry r)" by blast
    then show "\<exists>k. t < k \<and> k < t' \<and>
         days_until strptime (clk k) (ei_item r) = Some (days_until_expiry r)"
      by (intro exI[of _ k]) simp
  qed
  have D: "(\<forall>i j. i \<le> j \<longrightarrow> clk i \<le> clk j) \<longrightarrow> (\<forall>r\<in>set ?res. days_until_expiry r \<le> days)"
  proof (intro impI ballI)
    fix r assume mono: "\<forall>i j. i \<le> j \<longrightarrow> clk i \<le> clk j" and "r \<in> set ?res"
    then have rx: "r \<in> set xs" by simp
    with a obtain k where k: "Suc t \<le> k"
      "days_until strptime (clk k) (ei_item r) = Some (days_until_expiry r)" by blast
    have "ei_item r \<in> set (map ei_item xs)" using rx by simp
    then have w: "within_cutoff strptime ?cut (ei_item r)" unfolding m by simp
    have "clk t \<le> clk k" using mono k(1) by simp
    with k(2) w show "days_until_expiry r \<le> days" by (rule days_until_mono)
  qed
  from run A B C D show ?thesis by (intro exI[of _ ?res] exI[of _ t'] conjI)
qed

theorem expiry_scanner_by_cutoff_witness:
  "\<bar>30::int\<bar> \<le> 999999999 \<and>
   0 \<le> fixed_clock noon_2024_01_10 0 + 30 * us_per_day \<and>
   fixed_clock noon_2024_01_10 0 + 30 * us_per_day \<le> datetime_max \<and>
   (\<exists>res t'. get_expiring_soon_products strptime_ymd (fixed_clock noon_2024_01_10) 0
        [ex_item ''A'' 5 ''2024-02-09'', ex_item ''B'' 7 ''N/A'', ex_item ''C'' 1 ''2024-01-01'']
        30 = Inr (res, t') \<and>
      mset (map ei_item res) = mset [ex_item ''A'' 5 ''2024-02-09'', ex_item ''C'' 1 ''2024-01-01''] \<and>
      sorted (map days_until_expiry res))"
proof -
  have h1: "\<bar>30::int\<bar> \<le> 999999999" by simp
  have h2: "0 \<le> fixed_clock noon_2024_01_10 0 + 30 * us_per_day"
    by (simp add: fixed_clock_def noon_2024_01_10_def us_per_day_def)
  have h3: "fixed_clock noon_2024_01_10 0 + 30 * us_per_day \<le> datetime_max"
    by (simp add: fixed_clock_def noon_2024_01_10_def us_per_day_def datetime_max_def)
  have f: "filter (within_cutoff strptime_ymd (fixed_clock noon_2024_01_10 0 + 30 * us_per_day))
        [ex_item ''A'' 5 ''2024-02-09'', ex_item ''B'' 7 ''N/A'', ex_item ''C'' 1 ''2024-01-01'']
      = [ex_item ''A'' 5 ''2024-02-09'', ex_item ''C'' 1 ''2024-01-01'']"
    by code_simp
  obtain res t' where
    r: "get_expiring_soon_products strptime_ymd (fixed_clock noon_2024_01_10) 0
        [ex_item ''A'' 5 ''2024-02-09'', ex_item ''B'' 7 ''N/A'', ex_item ''C'' 1 ''2024-01-01'']
        30 = Inr (res, t')"
    and m: "mset (map ei_item res)
       = mset (filter (within_cutoff strptime_ymd (fixed_clock noon_2024_01_10 0 + 30 * us_per_day))
        [ex_item ''A'' 5 ''2024-02-09'', ex_item ''B'' 7 ''N/A'', ex_item ''C'' 1 ''2024-01-01''])"
    and s: "sorted (map days_until_expiry res)"
    using expiry_scanner_by_cutoff[where days = 30 and clk = "fixed_clock noon_2024_01_10"
        and t = 0 and strptime = strptime_ymd and inventory =
        "[ex_item ''A'' 5 ''2024-02-09'', ex_item ''B'' 7 ''N/A'', ex_item ''C'' 1 ''2024-01-01'']",
        OF h1 h2 h3]
    by (elim exE conjE) (rule that; assumption)
  from m have m': "mset (map ei_item res) = mset [ex_item ''A'' 5 ''2024-02-09'', ex_item ''C'' 1 ''2024-01-01'']"
    unfolding f .
  from h1 h2 h3 r m' s show ?thesis by (intro conjI exI[of _ res] exI[of _ t'])
qed

text \<open>
  Claim C5 as stated fails: at noon of 2024-01-10 with a horizon of 30 days, an item that
  expires on 2024-02-10 has \<open>days_until_expiry = 30\<close>, which is at most the horizon, and
  the scanner leaves it out, since its midnight is after the cutoff 2024-02-09T12:00.
\<close>

theorem expiry_scanner_horizon_counterexample:
  "get_expiring_soon_products strptime_ymd (fixed_clock noon_2024_01_10) 0
       [ex_item ''A'' 5 ''2024-02-10''] 30 = Inr ([], 1) \<and>
   days_until strptime_ymd noon_2024_01_10 (ex_item ''A'' 5 ''2024-02-10'') = Some 30"
  by code_simp


end
